theory Spec2Isabelle
  imports Main
begin

section \<open>Python strings and the interpreter's character tables\<close>

text \<open>
  A Python \<^verbatim>\<open>str\<close> is a sequence of Unicode code points, so it is modelled as a list of
  natural numbers.  ASCII literals of the source are written through \<open>u\<close>; the Chinese
  keywords of the source are given by their code points.
\<close>

type_synonym pystr = "nat list"

definition u :: "string \<Rightarrow> pystr" where
  "u s = map of_char s"

text \<open>
  The character classes behind \<^verbatim>\<open>str.strip\<close>, \<^verbatim>\<open>str.isdigit\<close>, \<^verbatim>\<open>str.lower\<close> and the
  \<^verbatim>\<open>re\<close> module (\<^verbatim>\<open>\s\<close>, \<^verbatim>\<open>\d\<close>, \<^verbatim>\<open>re.IGNORECASE\<close>) come from the Unicode database of
  the interpreter, which is not part of the repository.  Every function that depends on
  them takes the tables as its first argument \<open>U\<close>; the general theorems hold for all
  tables.
\<close>

record unicode_tables =
  u_isspace :: "nat \<Rightarrow> bool"
  u_isdecimal :: "nat \<Rightarrow> bool"
  u_isdigit :: "nat \<Rightarrow> bool"
  u_ic_eq :: "nat \<Rightarrow> nat \<Rightarrow> bool"
  u_lower :: "pystr \<Rightarrow> pystr"

definition ascii_lower :: "nat \<Rightarrow> nat" where
  "ascii_lower c = (if 65 \<le> c \<and> c \<le> 90 then c + 32 else c)"

definition py_whitespace :: "nat list" where
  "py_whitespace =
     [9, 10, 11, 12, 13, 28, 29, 30, 31, 32, 0x85, 0xA0, 0x1680,
      0x2000, 0x2001, 0x2002, 0x2003, 0x2004, 0x2005, 0x2006, 0x2007, 0x2008, 0x2009, 0x200A,
      0x2028, 0x2029, 0x202F, 0x205F, 0x3000]"

text \<open>
  Concrete tables for evaluating the model on ASCII text: the whitespace set is CPython's;
  digits and case folding are those of the ASCII range.
\<close>

definition ascii_tables :: unicode_tables where
  "ascii_tables =
     \<lparr> u_isspace = (\<lambda>c. c \<in> set py_whitespace),
       u_isdecimal = (\<lambda>c. 48 \<le> c \<and> c \<le> 57),
       u_isdigit = (\<lambda>c. 48 \<le> c \<and> c \<le> 57),
       u_ic_eq = (\<lambda>p c. ascii_lower p = ascii_lower c),
       u_lower = map ascii_lower \<rparr>"

text \<open>\<^verbatim>\<open>needle in haystack\<close> on strings.\<close>

fun py_in :: "pystr \<Rightarrow> pystr \<Rightarrow> bool" where
  "py_in n [] = (n = [])"
| "py_in n (x # xs) = (take (length n) (x # xs) = n \<or> py_in n xs)"

text \<open>\<^verbatim>\<open>s.strip()\<close>\<close>

definition py_strip :: "unicode_tables \<Rightarrow> pystr \<Rightarrow> pystr" where
  "py_strip U s = rev (dropWhile (u_isspace U) (rev (dropWhile (u_isspace U) s)))"

text \<open>\<^verbatim>\<open>s.isdigit()\<close>: every character is a digit and there is at least one.\<close>

definition py_isdigit :: "unicode_tables \<Rightarrow> pystr \<Rightarrow> bool" where
  "py_isdigit U s = (s \<noteq> [] \<and> list_all (u_isdigit U) s)"

text \<open>\<^verbatim>\<open>s.split(c)\<close> for a one-character separator: always at least one part.\<close>

fun py_split :: "nat \<Rightarrow> pystr \<Rightarrow> pystr list" where
  "py_split c [] = [[]]"
| "py_split c (x # xs) =
     (if x = c then [] # py_split c xs
      else (case py_split c xs of [] \<Rightarrow> [[x]] | p # ps \<Rightarrow> (x # p) # ps))"

text \<open>\<^verbatim>\<open>s.replace(c, new)\<close> for a one-character pattern.\<close>

definition py_replace :: "nat \<Rightarrow> pystr \<Rightarrow> pystr \<Rightarrow> pystr" where
  "py_replace c new s = concat (map (\<lambda>x. if x = c then new else [x]) s)"

text \<open>\<^verbatim>\<open>str(n)\<close> for an integer.\<close>

fun digits_nat :: "nat \<Rightarrow> pystr" where
  "digits_nat n = (if n < 10 then [48 + n] else digits_nat (n div 10) @ [48 + n mod 10])"

definition py_str :: "int \<Rightarrow> pystr" where
  "py_str i = (if i < 0 then 45 # digits_nat (nat (- i)) else digits_nat (nat i))"

datatype py_error = IndexError

text \<open>
  The position that \<^verbatim>\<open>xs[i]\<close> reads in a list of length \<open>n\<close>: negative indices count
  from the end, anything outside raises \<^verbatim>\<open>IndexError\<close>.
\<close>

definition py_pos :: "nat \<Rightarrow> int \<Rightarrow> py_error + nat" where
  "py_pos n i =
     (if 0 \<le> i \<and> i < int n then Inr (nat i)
      else if i < 0 \<and> - int n \<le> i then Inr (nat (int n + i))
      else Inl IndexError)"

section \<open>The regular expressions of \<^verbatim>\<open>SurveyParser.question_patterns\<close>\<close>

text \<open>
  \<^verbatim>\<open>re.match\<close> is a backtracking matcher.  \<open>rx_run\<close> returns every way a pattern can
  match a prefix of the subject, in the order in which backtracking tries them; the match
  that \<^verbatim>\<open>re.match\<close> reports is the first one.  A result is the unread rest of the subject
  and the groups captured so far (latest first).
\<close>

datatype cset = AnyChar | Space | Digit | Letter | Lit nat

fun in_cset :: "unicode_tables \<Rightarrow> bool \<Rightarrow> cset \<Rightarrow> nat \<Rightarrow> bool" where
  "in_cset U ic AnyChar c = (c \<noteq> 10)"
| "in_cset U ic Space c = u_isspace U c"
| "in_cset U ic Digit c = u_isdecimal U c"
| "in_cset U ic Letter c = ((97 \<le> c \<and> c \<le> 122) \<or> (65 \<le> c \<and> c \<le> 90))"
| "in_cset U ic (Lit p) c = (if ic then u_ic_eq U p c else c = p)"

datatype rx =
    Eps
  | One cset
  | Str pystr
  | Rep bool nat "nat option" cset
  | Cat rx rx
  | Alt rx rx
  | Grp nat rx
  | Eol

type_synonym rx_state = "pystr \<times> (nat \<times> pystr) list"

fun rx_run :: "unicode_tables \<Rightarrow> bool \<Rightarrow> rx \<Rightarrow> rx_state \<Rightarrow> rx_state list" where
  "rx_run U ic Eps st = [st]"
| "rx_run U ic (One cs) (s, g) =
     (case s of [] \<Rightarrow> [] | c # t \<Rightarrow> if in_cset U ic cs c then [(t, g)] else [])"
| "rx_run U ic (Str p) (s, g) =
     (if length p \<le> length s \<and> list_all2 (\<lambda>a c. in_cset U ic (Lit a) c) p (take (length p) s)
      then [(drop (length p) s, g)] else [])"
| "rx_run U ic (Rep greedy lo hi cs) (s, g) =
     (let n = length (takeWhile (in_cset U ic cs) s);
          m = (case hi of None \<Rightarrow> n | Some h \<Rightarrow> min n h);
          ks = [lo ..< Suc m]
      in map (\<lambda>k. (drop k s, g)) (if greedy then rev ks else ks))"
| "rx_run U ic (Cat r1 r2) st = concat (map (rx_run U ic r2) (rx_run U ic r1 st))"
| "rx_run U ic (Alt r1 r2) st = rx_run U ic r1 st @ rx_run U ic r2 st"
| "rx_run U ic (Grp n r) (s, g) =
     map (\<lambda>(s', g'). (s', (n, take (length s - length s') s) # g')) (rx_run U ic r (s, g))"
| "rx_run U ic Eol (s, g) = (if s = [] \<or> s = [10] then [(s, g)] else [])"

text \<open>\<^verbatim>\<open>re.match(pattern, text, flags)\<close>: \<open>None\<close> or the groups of the first match.\<close>

definition re_match :: "unicode_tables \<Rightarrow> bool \<Rightarrow> rx \<Rightarrow> pystr \<Rightarrow> (nat \<rightharpoonup> pystr) option" where
  "re_match U ic r s =
     (case rx_run U ic r (s, []) of [] \<Rightarrow> None | (rest, g) # _ \<Rightarrow> Some (map_of g))"

definition seq :: "rx list \<Rightarrow> rx" where
  "seq rs = foldr Cat rs Eps"

abbreviation rx_plus :: "cset \<Rightarrow> rx" where "rx_plus cs \<equiv> Rep True 1 None cs"
abbreviation rx_star :: "cset \<Rightarrow> rx" where "rx_star cs \<equiv> Rep True 0 None cs"
abbreviation rx_opt :: "cset \<Rightarrow> rx" where "rx_opt cs \<equiv> Rep True 0 (Some 1) cs"
abbreviation rx_lazy_plus :: "cset \<Rightarrow> rx" where "rx_lazy_plus cs \<equiv> Rep False 1 None cs"

text \<open>\<^verbatim>\<open>'answer_logic': r'^(ASK\s+ALL|ASK\s+IF\s+.+)$'\<close>\<close>

definition pat_answer_logic :: rx where
  "pat_answer_logic =
     seq [Grp 1 (Alt (seq [Str (u ''ASK''), rx_plus Space, Str (u ''ALL'')])
                     (seq [Str (u ''ASK''), rx_plus Space, Str (u ''IF''), rx_plus Space, rx_plus AnyChar])),
          Eol]"

text \<open>\<^verbatim>\<open>'question_number': r'^(\d+\.\d+[a-zA-Z]?)\s*(.+)$'\<close>\<close>

definition pat_question_number :: rx where
  "pat_question_number =
     seq [Grp 1 (seq [rx_plus Digit, One (Lit 46), rx_plus Digit, rx_opt Letter]),
          rx_star Space, Grp 2 (rx_plus AnyChar), Eol]"

text \<open>\<^verbatim>\<open>'question_type': r'^(Single\s+Answer|Multiple\s+Answers?|Open\s+Answer|Numeric)\.?\s*.*$'\<close>\<close>

definition pat_question_type :: rx where
  "pat_question_type =
     seq [Grp 1 (Alt (seq [Str (u ''Single''), rx_plus Space, Str (u ''Answer'')])
                (Alt (seq [Str (u ''Multiple''), rx_plus Space, Str (u ''Answer''), rx_opt (Lit 115)])
                (Alt (seq [Str (u ''Open''), rx_plus Space, Str (u ''Answer'')])
                     (Str (u ''Numeric''))))),
          rx_opt (Lit 46), rx_star Space, rx_star AnyChar, Eol]"

text \<open>\<^verbatim>\<open>'option': r'^(.+?)\s+(\d+)$'\<close>\<close>

definition pat_option :: rx where
  "pat_option = seq [Grp 1 (rx_lazy_plus AnyChar), rx_plus Space, Grp 2 (rx_plus Digit), Eol]"

text \<open>\<^verbatim>\<open>match.group(n)\<close> of a group that took part in the match.\<close>

definition group :: "(nat \<rightharpoonup> pystr) \<Rightarrow> nat \<Rightarrow> pystr" where
  "group m n = (case m n of Some s \<Rightarrow> s | None \<Rightarrow> [])"

definition is_answer_logic :: "unicode_tables \<Rightarrow> pystr \<Rightarrow> bool" where
  "is_answer_logic U text = (re_match U True pat_answer_logic text \<noteq> None)"

definition is_question_text :: "unicode_tables \<Rightarrow> pystr \<Rightarrow> bool" where
  "is_question_text U text = (re_match U False pat_question_number text \<noteq> None)"

definition is_question_type :: "unicode_tables \<Rightarrow> pystr \<Rightarrow> bool" where
  "is_question_type U text = (re_match U True pat_question_type text \<noteq> None)"

definition is_option :: "unicode_tables \<Rightarrow> pystr \<Rightarrow> bool" where
  "is_option U text = (re_match U False pat_option text \<noteq> None)"

section \<open>Data model\<close>

text \<open>An option dictionary \<^verbatim>\<open>{"option_code": ..., "option_text": ...}\<close>.\<close>

record survey_option =
  option_code :: pystr
  option_text :: pystr

text \<open>
  \<^verbatim>\<open>question["question_options"]\<close> is a reference to a list object.  It is either the list
  created with the question (owned by that question alone) or, after
  \<^verbatim>\<open>question["question_options"] = table_options[k]\<close>, the very list at position \<open>k\<close> of
  \<^verbatim>\<open>table_options\<close>: an \<^verbatim>\<open>append\<close> through it changes that table list for every holder.
\<close>

datatype optref = Own "survey_option list" | Tab nat

text \<open>
  The question dictionary.  During segmentation the options field is a reference
  (\<open>optref question\<close>); in the returned records it is the list the reference points to.
\<close>

record 'o question =
  index :: int
  answer_logic :: pystr
  question_id :: pystr
  question_text :: pystr
  question_type :: pystr
  question_options :: 'o

definition get_options :: "survey_option list list \<Rightarrow> optref \<Rightarrow> survey_option list" where
  "get_options table_options r = (case r of Own l \<Rightarrow> l | Tab k \<Rightarrow> table_options ! k)"

definition resolve :: "survey_option list list \<Rightarrow> optref question \<Rightarrow> survey_option list question" where
  "resolve table_options q =
     \<lparr> index = index q, answer_logic = answer_logic q, question_id = question_id q,
       question_text = question_text q, question_type = question_type q,
       question_options = get_options table_options (question_options q) \<rparr>"

text \<open>A cell and a table as the document reader (\<^verbatim>\<open>read_docx_file\<close>) writes them.\<close>

record cell =
  cell_row :: nat
  cell_column :: nat
  cell_text :: pystr

record table =
  t_index :: nat
  t_rows :: nat
  t_columns :: nat
  t_data :: "cell list list"

section \<open>\<^verbatim>\<open>_extract_table_options\<close>\<close>

text \<open>
  The body of the loop over the rows of one table: the options collected so far and the
  row give the options collected after the row.  The reader always produces \<^verbatim>\<open>"data"\<close> as a
  list of lists of cells with a \<^verbatim>\<open>"text"\<close> key, so the \<^verbatim>\<open>isinstance\<close> tests and the
  default of \<^verbatim>\<open>get\<close> are not branches of the model.
\<close>

definition mk_option :: "pystr \<Rightarrow> pystr \<Rightarrow> survey_option" where
  "mk_option code txt = \<lparr> option_code = code, option_text = txt \<rparr>"

definition row_options :: "unicode_tables \<Rightarrow> survey_option list \<Rightarrow> cell list \<Rightarrow> survey_option list" where
  "row_options U options row =
     (if length row \<ge> 4 then
        (let option_text1 = py_strip U (cell_text (row ! 0));
             option_code1 = py_strip U (cell_text (row ! 1));
             option_text2 = py_strip U (cell_text (row ! 2));
             option_code2 = py_strip U (cell_text (row ! 3));
             options1 = (if option_text1 \<noteq> [] \<and> option_code1 \<noteq> []
                         then options @ [mk_option option_code1 option_text1] else options)
         in if option_text2 \<noteq> [] \<and> option_code2 \<noteq> []
            then options1 @ [mk_option option_code2 option_text2] else options1)
      else if length row \<ge> 2 then
        (let option_text = py_strip U (cell_text (row ! 0));
             option_code = py_strip U (cell_text (row ! 1))
         in if option_text \<noteq> [] \<and> option_code \<noteq> []
            then options @ [mk_option option_code option_text] else options)
      else if length row \<ge> 1 then
        (let option_text = py_strip U (cell_text (row ! 0))
         in if option_text \<noteq> [] \<and> \<not> py_isdigit U option_text
            then options @ [mk_option (py_str (int (length options) + 1)) option_text]
            else options)
      else options)"

definition table_options_of :: "unicode_tables \<Rightarrow> table \<Rightarrow> survey_option list" where
  "table_options_of U t = foldl (row_options U) [] (t_data t)"

definition extract_table_options :: "unicode_tables \<Rightarrow> table list \<Rightarrow> survey_option list list" where
  "extract_table_options U tables =
     foldl (\<lambda>table_options t.
              (let options = table_options_of U t
               in if options \<noteq> [] then table_options @ [options] else table_options))
       [] tables"

section \<open>\<^verbatim>\<open>_assign_table_options\<close>\<close>

text \<open>The keywords of the rule chain, by code point.\<close>

definition kw_gender :: pystr where "kw_gender = [0x6027, 0x522B]"
definition kw_age :: pystr where "kw_age = [0x5E74, 0x9F84]"
definition kw_residency :: pystr where "kw_residency = [0x5C45, 0x7559, 0x8EAB, 0x4EFD]"
definition kw_credit_card :: pystr where "kw_credit_card = [0x4FE1, 0x7528, 0x5361]"
definition kw_hold_any :: pystr where "kw_hold_any = [0x6301, 0x6709, 0x4EFB, 0x4F55]"
definition kw_occupation :: pystr where "kw_occupation = [0x804C, 0x4E1A]"
definition kw_annual_income :: pystr where "kw_annual_income = [0x5E74, 0x6536, 0x5165]"
definition kw_bank :: pystr where "kw_bank = [0x94F6, 0x884C]"
definition kw_hold_which :: pystr where "kw_hold_which = [0x6301, 0x6709, 0x54EA, 0x4E9B]"
definition kw_when_obtained :: pystr where "kw_when_obtained = [0x4F55, 0x65F6, 0x53D6, 0x5F97]"
definition kw_spending :: pystr where "kw_spending = [0x6D88, 0x8D39]"
definition kw_expense :: pystr where "kw_expense = [0x5F00, 0x9500]"
definition kw_hkd :: pystr where "kw_hkd = [0x6E2F, 0x5E01]"
definition kw_yuan :: pystr where "kw_yuan = [0x5143]"

text \<open>The first position of a list whose element satisfies \<open>P\<close> (a \<^verbatim>\<open>for\<close> loop with \<^verbatim>\<open>break\<close>).\<close>

fun first_index :: "('a \<Rightarrow> bool) \<Rightarrow> 'a list \<Rightarrow> nat option" where
  "first_index P [] = None"
| "first_index P (x # xs) = (if P x then Some 0 else map_option Suc (first_index P xs))"

text \<open>
  The two search loops of the default rule: \<^verbatim>\<open>for i in ...: if table_options[i]: ...; break\<close>.
  The result is the position bound, \<open>None\<close> when the loop runs out, or the \<^verbatim>\<open>IndexError\<close> of
  \<^verbatim>\<open>table_options[i]\<close>.
\<close>

fun scan_nonempty :: "survey_option list list \<Rightarrow> int list \<Rightarrow> py_error + nat option" where
  "scan_nonempty table_options [] = Inr None"
| "scan_nonempty table_options (i # is) =
     (case py_pos (length table_options) i of
        Inl e \<Rightarrow> Inl e
      | Inr k \<Rightarrow> if table_options ! k \<noteq> [] then Inr (Some k) else scan_nonempty table_options is)"

definition bind_tab :: "optref question \<Rightarrow> nat \<Rightarrow> optref question" where
  "bind_tab question k = question\<lparr>question_options := Tab k\<rparr>"

definition is_card_table :: "survey_option list \<Rightarrow> bool" where
  "is_card_table options =
     (options \<noteq> [] \<and>
      list_ex (\<lambda>opt. py_in kw_credit_card (option_text opt) \<or> py_in (u ''Mastercard'') (option_text opt)
                    \<or> py_in (u ''Visa'') (option_text opt)) options)"

definition is_amount_table :: "survey_option list \<Rightarrow> bool" where
  "is_amount_table options =
     ((options \<noteq> [] \<and>
       list_ex (\<lambda>opt. py_in kw_hkd (option_text opt) \<or> py_in kw_yuan (option_text opt)) options) \<and>
      \<not> list_ex (\<lambda>opt. py_in kw_bank (option_text opt) \<or> py_in kw_credit_card (option_text opt)) options)"

definition default_fallback ::
    "optref question \<Rightarrow> survey_option list list \<Rightarrow> py_error + optref question" where
  "default_fallback question table_options =
     (let table_index = index question - 1;
          n = int (length table_options)
      in if 0 \<le> table_index \<and> table_index < n \<and> table_options ! nat table_index \<noteq> []
         then Inr (bind_tab question (nat table_index))
         else (case scan_nonempty table_options [table_index + 1 .. n - 1] of
                 Inl e \<Rightarrow> Inl e
               | Inr (Some k) \<Rightarrow> Inr (bind_tab question k)
               | Inr None \<Rightarrow>
                   (case scan_nonempty table_options (rev [0 .. table_index - 1]) of
                      Inl e \<Rightarrow> Inl e
                    | Inr (Some k) \<Rightarrow> Inr (bind_tab question k)
                    | Inr None \<Rightarrow> Inr question)))"

definition assign_table_options ::
    "unicode_tables \<Rightarrow> optref question \<Rightarrow> survey_option list list \<Rightarrow> py_error + optref question" where
  "assign_table_options U question table_options =
     (let txt = question_text question;
          question_text_l = u_lower U txt;
          n = length table_options
      in if txt = [] then Inr question
         else if py_in kw_gender txt then
           Inr (if n > 0 then bind_tab question 0 else question)
         else if py_in kw_age txt then
           Inr (if n > 1 then bind_tab question 1 else question)
         else if py_in kw_residency txt then
           Inr (if n > 2 then bind_tab question 2 else question)
         else if py_in kw_credit_card txt \<and> py_in kw_hold_any txt then
           Inr (if n > 3 then bind_tab question 3 else question)
         else if py_in kw_occupation txt then
           Inr (if index question = 5 \<and> n > 4 then bind_tab question 4
                else if index question = 6 \<and> n > 5 then bind_tab question 5
                else question)
         else if py_in kw_annual_income txt then
           Inr (if n > 6 then bind_tab question 6 else question)
         else if py_in kw_bank txt then
           Inr (if n > 0 then bind_tab question (n - 1) else question)
         else if py_in kw_credit_card txt \<and> py_in kw_hold_which txt then
           Inr (case first_index is_card_table table_options of
                  Some k \<Rightarrow> bind_tab question k | None \<Rightarrow> question)
         else if py_in (u ''mmpower'') question_text_l \<or> py_in (u ''mastercard'') question_text_l then
           (if py_in kw_when_obtained txt \<or> py_in (u ''when'') question_text_l then
              Inr (if n > 9 then bind_tab question 9 else question)
            else
              (let table_index = index question - 2
               in Inr (if 0 \<le> table_index \<and> table_index < int n
                       then bind_tab question (nat table_index) else question)))
         else if py_in kw_spending txt \<or> py_in kw_expense txt then
           Inr (case first_index is_amount_table table_options of
                  Some k \<Rightarrow> bind_tab question k | None \<Rightarrow> question)
         else default_fallback question table_options)"

section \<open>Question ids, options in paragraphs, question text\<close>

text \<open>\<^verbatim>\<open>_generate_question_id\<close>\<close>

definition generate_question_id :: "pystr \<Rightarrow> pystr" where
  "generate_question_id question_num =
     (let parts = py_split 46 question_num
      in if length parts = 2 then u ''Q'' @ parts ! 0 @ u ''x'' @ parts ! 1
         else u ''Q'' @ question_num)"

text \<open>\<^verbatim>\<open>_parse_option\<close>\<close>

definition parse_option :: "unicode_tables \<Rightarrow> pystr \<Rightarrow> survey_option option" where
  "parse_option U txt =
     (case re_match U False pat_option txt of
        Some m \<Rightarrow> Some (mk_option (py_strip U (group m 2)) (py_strip U (group m 1)))
      | None \<Rightarrow> None)"

text \<open>\<^verbatim>\<open>_clean_question_text\<close>\<close>

definition clean_question_text :: "unicode_tables \<Rightarrow> pystr \<Rightarrow> pystr" where
  "clean_question_text U txt =
     (let lines = py_split 10 txt;
          question_text = py_strip U (case lines of [] \<Rightarrow> [] | l # _ \<Rightarrow> l)
      in if re_match U True pat_question_type question_text \<noteq> None then []
         else if re_match U True pat_answer_logic question_text \<noteq> None then []
         else question_text)"

section \<open>Fallback inference of the question type\<close>

definition kw_numeric :: "pystr list" where
  "kw_numeric = [[0x5E74, 0x9F84], [0x6536, 0x5165], [0x91D1, 0x989D], [0x6570, 0x91CF],
                 [0x767E, 0x5206, 0x6BD4], [0x6BD4, 0x4F8B]]"

definition kw_multiple :: "pystr list" where
  "kw_multiple = [[0x9009, 0x62E9, 0x6240, 0x6709], [0x591A, 0x9009], [0x54EA, 0x4E9B],
                  [0x54EA, 0x4E09, 0x4E2A], [0x524D, 0x4E09, 0x4E2A]]"

definition kw_male :: pystr where "kw_male = [0x7537]"
definition kw_female :: pystr where "kw_female = [0x5973]"

text \<open>\<^verbatim>\<open>_infer_question_type_from_content\<close>; \<open>options\<close> is the list the question refers to.\<close>

definition infer_question_type_from_content ::
    "unicode_tables \<Rightarrow> optref question \<Rightarrow> survey_option list \<Rightarrow> optref question" where
  "infer_question_type_from_content U question options =
     (let question_text_l = u_lower U (question_text question)
      in if list_ex (\<lambda>keyword. py_in keyword question_text_l) kw_numeric then
           question\<lparr>question_type := u ''Numeric''\<rparr>
         else if list_ex (\<lambda>keyword. py_in keyword question_text_l) kw_multiple then
           question\<lparr>question_type := u ''Multiple Answers''\<rparr>
         else if length options = 2 \<and>
                 list_ex (\<lambda>opt. py_in kw_male (option_text opt) \<or> py_in kw_female (option_text opt)) options then
           question\<lparr>question_type := u ''Single Answer''\<rparr>
         else if length options > 2 then
           (if list_all (\<lambda>opt. py_strip U (option_text opt) \<noteq> []) options
            then question\<lparr>question_type := u ''Single Answer''\<rparr> else question)
         else question)"

text \<open>
  The inner loop of \<^verbatim>\<open>_find_question_type_comprehensive\<close> over the window of paragraphs: the
  captured first group of the first type marker found.
\<close>

fun scan_type :: "unicode_tables \<Rightarrow> pystr list \<Rightarrow> nat list \<Rightarrow> pystr option" where
  "scan_type U paragraphs [] = None"
| "scan_type U paragraphs (j # js) =
     (let search_para = py_strip U (paragraphs ! j)
      in if search_para \<noteq> [] \<and> is_question_type U search_para then
           (case re_match U True pat_question_type search_para of
              Some m \<Rightarrow> Some (group m 1)
            | None \<Rightarrow> scan_type U paragraphs js)
         else scan_type U paragraphs js)"

text \<open>
  \<^verbatim>\<open>_find_question_type_comprehensive\<close>: only the first paragraph that contains the question
  text is looked at (the outer loop ends with \<^verbatim>\<open>break\<close>).
\<close>

definition find_question_type_comprehensive ::
    "unicode_tables \<Rightarrow> optref question \<Rightarrow> pystr list \<Rightarrow> survey_option list \<Rightarrow> optref question" where
  "find_question_type_comprehensive U question paragraphs options =
     (let txt = question_text question
      in if txt = [] then question
         else (case first_index (py_in txt) paragraphs of
                 None \<Rightarrow> infer_question_type_from_content U question options
               | Some i \<Rightarrow>
                   (case scan_type U paragraphs [i - 5 ..< min (length paragraphs) (i + 10)] of
                      Some t \<Rightarrow> question\<lparr>question_type := t\<rparr>
                    | None \<Rightarrow> infer_question_type_from_content U question options)))"

section \<open>\<^verbatim>\<open>_parse_questions\<close>\<close>

text \<open>
  The variables of the loop.  \<open>table_options\<close> is part of the state because an option
  appended through a question bound to a table list changes that list.
\<close>

record pstate =
  questions :: "optref question list"
  current_question :: "optref question option"
  question_index :: int
  table_options :: "survey_option list list"

definition new_question :: "int \<Rightarrow> pystr \<Rightarrow> optref question" where
  "new_question i para =
     \<lparr> index = i, answer_logic = para, question_id = [], question_text = [],
       question_type = [], question_options = Own [] \<rparr>"

text \<open>Lines 103 to 107: what happens to the question in progress when a new marker is seen.\<close>

definition finalize_on_marker ::
    "unicode_tables \<Rightarrow> pystr list \<Rightarrow> survey_option list list \<Rightarrow> optref question \<Rightarrow> optref question" where
  "finalize_on_marker U paragraphs tabs q =
     (if question_type q = []
      then find_question_type_comprehensive U q paragraphs (get_options tabs (question_options q))
      else q)"

text \<open>Lines 181 to 190: what happens to the question in progress at the end of the paragraphs.\<close>

definition finalize_at_end ::
    "unicode_tables \<Rightarrow> pystr list \<Rightarrow> survey_option list list \<Rightarrow> optref question
       \<Rightarrow> py_error + optref question" where
  "finalize_at_end U paragraphs tabs q =
     (case (if get_options tabs (question_options q) = []
            then assign_table_options U q tabs else Inr q) of
        Inl e \<Rightarrow> Inl e
      | Inr q1 \<Rightarrow>
          Inr (if question_type q1 = []
               then find_question_type_comprehensive U q1 paragraphs (get_options tabs (question_options q1))
               else q1))"

text \<open>
  Lines 144 to 152: after the question text at \<open>next_i\<close>, at most two further paragraphs are
  searched for a type marker.
\<close>

definition lookahead_type :: "unicode_tables \<Rightarrow> pystr list \<Rightarrow> nat \<Rightarrow> optref question \<Rightarrow> optref question" where
  "lookahead_type U paragraphs next_i q =
     (case find (\<lambda>type_i. let type_para = py_strip U (paragraphs ! type_i)
                          in type_para \<noteq> [] \<and> is_question_type U type_para)
                [next_i + 1 ..< min (length paragraphs) (next_i + 3)] of
        None \<Rightarrow> q
      | Some type_i \<Rightarrow>
          (case re_match U True pat_question_type (py_strip U (paragraphs ! type_i)) of
             Some m \<Rightarrow> q\<lparr>question_type := group m 1\<rparr>
           | None \<Rightarrow> q))"

text \<open>Lines 119 to 154: the search for the question text after a marker at position \<open>i\<close>.\<close>

definition lookahead_text ::
    "unicode_tables \<Rightarrow> pystr list \<Rightarrow> survey_option list list \<Rightarrow> nat \<Rightarrow> optref question
       \<Rightarrow> py_error + optref question" where
  "lookahead_text U paragraphs tabs i q =
     (case find (\<lambda>next_i. let next_para = py_strip U (paragraphs ! next_i)
                          in next_para \<noteq> [] \<and> \<not> is_answer_logic U next_para)
                [i + 1 ..< length paragraphs] of
        None \<Rightarrow> Inr q
      | Some next_i \<Rightarrow>
          (let next_para = py_strip U (paragraphs ! next_i)
           in case (case re_match U False pat_question_number next_para of
                      Some m \<Rightarrow>
                        assign_table_options U
                          (q\<lparr>question_id := generate_question_id (group m 1),
                             question_text := py_strip U (group m 2)\<rparr>) tabs
                    | None \<Rightarrow>
                        (let txt = clean_question_text U next_para
                         in if txt \<noteq> [] \<and> \<not> is_question_type U txt
                            then assign_table_options U
                                   (q\<lparr>question_text := txt,
                                      question_id := u ''Q1x'' @ py_str (index q)\<rparr>) tabs
                            else Inr q)) of
                Inl e \<Rightarrow> Inl e
              | Inr q1 \<Rightarrow> Inr (lookahead_type U paragraphs next_i q1)))"

text \<open>Lines 157 to 170: a type marker while a question is in progress.\<close>

definition on_question_type ::
    "unicode_tables \<Rightarrow> survey_option list list \<Rightarrow> pystr \<Rightarrow> optref question \<Rightarrow> py_error + optref question" where
  "on_question_type U tabs para q =
     (let q1 = (case re_match U True pat_question_type para of
                  Some m \<Rightarrow> q\<lparr>question_type := group m 1\<rparr> | None \<Rightarrow> q)
      in if question_text q1 \<noteq> [] then
           (case assign_table_options U q1 tabs of
              Inl e \<Rightarrow> Inl e
            | Inr q2 \<Rightarrow>
                Inr (if py_in kw_bank (question_text q2) \<and> py_in (u ''Multiple'') para
                     then (if length tabs > 0 then bind_tab q2 (length tabs - 1) else q2)
                     else q2))
         else Inr q1)"

text \<open>
  Lines 173 to 176: \<^verbatim>\<open>current_question["question_options"].append(option)\<close>, on the list the
  question refers to.
\<close>

definition append_option :: "pstate \<Rightarrow> optref question \<Rightarrow> survey_option \<Rightarrow> pstate" where
  "append_option st q opt =
     (case question_options q of
        Own l \<Rightarrow> st\<lparr>current_question := Some (q\<lparr>question_options := Own (l @ [opt])\<rparr>)\<rparr>
      | Tab k \<Rightarrow> st\<lparr>table_options := (table_options st)[k := table_options st ! k @ [opt]]\<rparr>)"

text \<open>One round of the \<^verbatim>\<open>while\<close> loop, for the paragraph at position \<open>i\<close>.\<close>

definition parse_step :: "unicode_tables \<Rightarrow> pystr list \<Rightarrow> nat \<Rightarrow> pstate \<Rightarrow> py_error + pstate" where
  "parse_step U paragraphs i st =
     (let para = py_strip U (paragraphs ! i)
      in if is_answer_logic U para then
           (let questions1 = (case current_question st of
                                None \<Rightarrow> questions st
                              | Some q \<Rightarrow> questions st @ [finalize_on_marker U paragraphs (table_options st) q])
            in case lookahead_text U paragraphs (table_options st) i
                      (new_question (question_index st) para) of
                 Inl e \<Rightarrow> Inl e
               | Inr q1 \<Rightarrow> Inr (st\<lparr>questions := questions1, current_question := Some q1,
                                    question_index := question_index st + 1\<rparr>))
         else if is_question_type U para \<and> current_question st \<noteq> None then
           (case current_question st of
              None \<Rightarrow> Inr st
            | Some q \<Rightarrow>
                (case on_question_type U (table_options st) para q of
                   Inl e \<Rightarrow> Inl e
                 | Inr q1 \<Rightarrow> Inr (st\<lparr>current_question := Some q1\<rparr>)))
         else if is_option U para \<and> current_question st \<noteq> None then
           (case current_question st of
              None \<Rightarrow> Inr st
            | Some q \<Rightarrow>
                (case parse_option U para of
                   Some opt \<Rightarrow> Inr (append_option st q opt)
                 | None \<Rightarrow> Inr st))
         else Inr st)"

fun parse_loop :: "unicode_tables \<Rightarrow> pystr list \<Rightarrow> nat list \<Rightarrow> pstate \<Rightarrow> py_error + pstate" where
  "parse_loop U paragraphs [] st = Inr st"
| "parse_loop U paragraphs (i # is) st =
     (case parse_step U paragraphs i st of
        Inl e \<Rightarrow> Inl e
      | Inr st1 \<Rightarrow> parse_loop U paragraphs is st1)"

definition parse_init :: "survey_option list list \<Rightarrow> pstate" where
  "parse_init tabs =
     \<lparr> questions = [], current_question = None, question_index = 1, table_options = tabs \<rparr>"

text \<open>
  \<^verbatim>\<open>_parse_questions\<close>: the loop over all positions, the last question, and the returned
  list, whose option lists are read through the references when the function returns.
\<close>

definition parse_questions ::
    "unicode_tables \<Rightarrow> pystr list \<Rightarrow> survey_option list list
       \<Rightarrow> py_error + survey_option list question list" where
  "parse_questions U paragraphs tabs =
     (case parse_loop U paragraphs [0 ..< length paragraphs] (parse_init tabs) of
        Inl e \<Rightarrow> Inl e
      | Inr st \<Rightarrow>
          (case current_question st of
             None \<Rightarrow> Inr (map (resolve (table_options st)) (questions st))
           | Some q \<Rightarrow>
               (case finalize_at_end U paragraphs (table_options st) q of
                  Inl e \<Rightarrow> Inl e
                | Inr q1 \<Rightarrow> Inr (map (resolve (table_options st)) (questions st @ [q1])))))"

section \<open>\<^verbatim>\<open>parse_survey_document\<close>\<close>

text \<open>
  What the document reader returns: the file information (which carries the reader's own
  time stamp), the paragraph texts and the tables; or an error message.
\<close>

record file_info =
  filename :: pystr
  file_path :: pystr
  file_size :: nat
  fi_processed_time :: pystr

record word_content =
  wc_file_info :: file_info
  wc_paragraphs :: "pystr list"
  wc_tables :: "table list"

record survey_result =
  r_file_info :: file_info
  total_questions :: nat
  processed_time :: pystr
  r_questions :: "survey_option list question list"

datatype run_error = ReaderError pystr | ParserError py_error

text \<open>
  \<open>now\<close> is the value of \<^verbatim>\<open>datetime.now().isoformat()\<close> at line 63.  An exception inside the
  \<^verbatim>\<open>try\<close> block turns the whole result into an error dictionary.
\<close>

definition parse_survey_document ::
    "unicode_tables \<Rightarrow> pystr \<Rightarrow> pystr + word_content \<Rightarrow> run_error + survey_result" where
  "parse_survey_document U now word_content =
     (case word_content of
        Inl msg \<Rightarrow> Inl (ReaderError msg)
      | Inr wc \<Rightarrow>
          (let paragraphs = filter (\<lambda>t. t \<noteq> []) (map (py_strip U) (wc_paragraphs wc));
               tabs = extract_table_options U (wc_tables wc)
           in case parse_questions U paragraphs tabs of
                Inl e \<Rightarrow> Inl (ParserError e)
              | Inr qs \<Rightarrow>
                  Inr \<lparr> r_file_info = wc_file_info wc, total_questions = length qs,
                        processed_time = now, r_questions = qs \<rparr>))"

section \<open>The XML generator\<close>

text \<open>An \<^verbatim>\<open>ElementTree\<close> element: tag, attributes in insertion order, text, children.\<close>

datatype element = Element pystr "(pystr \<times> pystr) list" "pystr option" "element list"

fun children :: "element \<Rightarrow> element list" where
  "children (Element t a x cs) = cs"

fun append_child :: "element \<Rightarrow> element \<Rightarrow> element" where
  "append_child (Element t a x cs) e = Element t a x (cs @ [e])"

text \<open>\<^verbatim>\<open>escape_xml_text\<close>\<close>

definition escape_xml_text :: "pystr \<Rightarrow> pystr" where
  "escape_xml_text txt =
     (if txt = [] then []
      else py_replace 39 (u ''&apos;'')
            (py_replace 34 (u ''&quot;'')
              (py_replace 62 (u ''&gt;'')
                (py_replace 60 (u ''&lt;'')
                  (py_replace 38 (u ''&amp;'') txt)))))"

definition title_element :: "survey_option list question \<Rightarrow> element" where
  "title_element question =
     Element (u ''title'') [] (Some (escape_xml_text (question_text question))) []"

text \<open>\<^verbatim>\<open>generate_single_answer_xml\<close>\<close>

definition single_row :: "survey_option \<Rightarrow> element" where
  "single_row option =
     Element (u ''row'')
       [(u ''label'', u ''r'' @ option_code option), (u ''value'', option_code option)]
       (Some (escape_xml_text (option_text option))) []"

definition generate_single_answer_xml :: "survey_option list question \<Rightarrow> element" where
  "generate_single_answer_xml question =
     Element (u ''radio'') [(u ''label'', question_id question)] None
       ([title_element question,
         Element (u ''comment'') [] (Some (u ''${res.SCInst}'')) []]
        @ map single_row (question_options question))"

text \<open>\<^verbatim>\<open>generate_multiple_answers_xml\<close>\<close>

definition multiple_row :: "survey_option \<Rightarrow> element" where
  "multiple_row option =
     Element (u ''row'') [(u ''label'', u ''r'' @ option_code option)]
       (Some (escape_xml_text (option_text option))) []"

definition generate_multiple_answers_xml :: "survey_option list question \<Rightarrow> element" where
  "generate_multiple_answers_xml question =
     Element (u ''checkbox'') [(u ''label'', question_id question), (u ''atleast'', u ''1'')] None
       ([title_element question,
         Element (u ''comment'') [] (Some (u ''${res.MRInst}'')) []]
        @ map multiple_row (question_options question))"

text \<open>\<^verbatim>\<open>generate_numeric_xml\<close>\<close>

definition generate_numeric_xml :: "survey_option list question \<Rightarrow> element" where
  "generate_numeric_xml question =
     Element (u ''number'')
       [(u ''label'', question_id question), (u ''optional'', u ''0''), (u ''size'', u ''20''),
        (u ''verify'', u ''range(0,99)'')] None
       [title_element question]"

text \<open>The dictionary \<^verbatim>\<open>processed_count\<close> of \<^verbatim>\<open>generate_xml\<close>.\<close>

record processed_count =
  single_answer :: nat
  multiple_answers :: nat
  numeric :: nat
  unknown :: nat

definition count0 :: processed_count where
  "count0 = \<lparr> single_answer = 0, multiple_answers = 0, numeric = 0, unknown = 0 \<rparr>"

text \<open>
  The body of the loop over the questions (lines 106 to 133): the root element and the
  counters before and after one question.
\<close>

definition emit_question ::
    "survey_option list question \<Rightarrow> element \<times> processed_count \<Rightarrow> element \<times> processed_count" where
  "emit_question question st =
     (let root = fst st; cnt = snd st;
          add = (\<lambda>e. append_child (append_child root e) (Element (u ''suspend'') [] None []))
      in if question_type question = u ''Single Answer'' then
           (add (generate_single_answer_xml question), cnt\<lparr>single_answer := single_answer cnt + 1\<rparr>)
         else if question_type question = u ''Multiple Answers'' then
           (add (generate_multiple_answers_xml question), cnt\<lparr>multiple_answers := multiple_answers cnt + 1\<rparr>)
         else if question_type question = u ''Numeric'' then
           (add (generate_numeric_xml question), cnt\<lparr>numeric := numeric cnt + 1\<rparr>)
         else (root, cnt\<lparr>unknown := unknown cnt + 1\<rparr>))"

text \<open>
  Lines 98 to 133 of \<^verbatim>\<open>generate_xml\<close>: the questions are sorted by index (\<^verbatim>\<open>list.sort\<close> is
  stable, as \<open>sort_key\<close> is) and emitted into \<open>root\<close>, the element the generator was
  created with.
\<close>

definition emit_questions ::
    "element \<Rightarrow> survey_option list question list \<Rightarrow> element \<times> processed_count" where
  "emit_questions root qs = fold emit_question (sort_key index qs) (root, count0)"

text \<open>
  \<^verbatim>\<open>ET.tostring(root, encoding='unicode')\<close> of line 136, after the serializer of the standard
  library: attribute values and text are escaped by the serializer itself.
\<close>

definition et_escape_cdata :: "pystr \<Rightarrow> pystr" where
  "et_escape_cdata txt =
     py_replace 62 (u ''&gt;'') (py_replace 60 (u ''&lt;'') (py_replace 38 (u ''&amp;'') txt))"

definition et_escape_attrib :: "pystr \<Rightarrow> pystr" where
  "et_escape_attrib txt =
     py_replace 9 (u ''&#09;'') (py_replace 10 (u ''&#10;'') (py_replace 13 (u ''&#13;'')
       (py_replace 34 (u ''&quot;'') (et_escape_cdata txt))))"

fun et_tostring :: "element \<Rightarrow> pystr" where
  "et_tostring (Element t a x cs) =
     u ''<'' @ t
     @ concat (map (\<lambda>(k, v). u '' '' @ k @ u ''=\"'' @ et_escape_attrib v @ u ''\"'') a)
     @ (if (x \<noteq> None \<and> x \<noteq> Some []) \<or> cs \<noteq> []
        then u ''>'' @ (case x of None \<Rightarrow> [] | Some txt \<Rightarrow> et_escape_cdata txt)
             @ concat (map et_tostring cs) @ u ''</'' @ t @ u ''>''
        else u '' />'')"

definition survey_root :: element where
  "survey_root = Element (u ''survey'') [] None []"

text \<open>
  The document of one run of \<^verbatim>\<open>generate_xml\<close> with a generator created for that run, before
  the pretty-printer re-indents it.
\<close>

definition generate_xml :: "survey_option list question list \<Rightarrow> pystr" where
  "generate_xml qs = et_tostring (fst (emit_questions survey_root qs))"

text \<open>
  The condition of the last branch of the loop of \<^verbatim>\<open>generate_xml\<close> (line 123): the type is
  none of the three strings the generator knows.
\<close>

definition unknown_type :: "survey_option list question \<Rightarrow> bool" where
  "unknown_type q =
     (question_type q \<noteq> u ''Single Answer'' \<and> question_type q \<noteq> u ''Multiple Answers'' \<and>
      question_type q \<noteq> u ''Numeric'')"

text \<open>A cell of a concrete table, for the examples.\<close>

definition mk_cell :: "nat \<Rightarrow> nat \<Rightarrow> string \<Rightarrow> cell" where
  "mk_cell r c s = \<lparr> cell_row = r, cell_column = c, cell_text = u s \<rparr>"

section \<open>Evaluation on concrete input\<close>

lemmas str_defs = u_def ascii_tables_def ascii_lower_def py_whitespace_def py_strip_def
  py_isdigit_def py_str_def

lemmas rx_defs = re_match_def seq_def pat_answer_logic_def pat_question_number_def
  pat_question_type_def pat_option_def group_def is_answer_logic_def is_question_type_def
  is_option_def

lemmas kw_defs = kw_gender_def kw_age_def kw_residency_def kw_credit_card_def kw_hold_any_def
  kw_occupation_def kw_annual_income_def kw_bank_def kw_hold_which_def kw_when_obtained_def
  kw_spending_def kw_expense_def kw_hkd_def kw_yuan_def kw_numeric_def kw_multiple_def
  kw_male_def kw_female_def

lemmas assign_defs = assign_table_options_def default_fallback_def bind_tab_def py_pos_def
  is_card_table_def is_amount_table_def upto.simps

lemmas parse_defs = parse_questions_def parse_init_def parse_step_def lookahead_text_def
  lookahead_type_def on_question_type_def append_option_def finalize_at_end_def
  finalize_on_marker_def new_question_def find_question_type_comprehensive_def
  infer_question_type_from_content_def generate_question_id_def clean_question_text_def
  parse_option_def mk_option_def get_options_def resolve_def upt_rec Let_def

section \<open>Splitting and question ids\<close>

lemma py_split_no_sep: "c \<notin> set s \<Longrightarrow> py_split c s = [s]"
  by (induction s) auto

lemma py_split_append: "c \<notin> set a \<Longrightarrow> py_split c (a @ c # b) = a # py_split c b"
  by (induction a) auto

lemma py_split_not_Nil: "py_split c s \<noteq> []"
  by (induction s) (auto split: list.splits)

lemma length_py_split: "length (py_split c s) = Suc (count_list s c)"
proof (induction s)
  case Nil
  then show ?case by simp
next
  case (Cons x xs)
  then show ?case using py_split_not_Nil [of c xs]
    by (cases "py_split c xs") auto
qed

text \<open>
  C7.  A numbering string \<open>a.b\<close> with exactly one full stop (code point 46) maps to
  \<open>Q\<close> + \<open>a\<close> + \<open>x\<close> + \<open>b\<close>, whatever \<open>a\<close> and \<open>b\<close> are (digits, or digits with a letter
  suffix); a string that does not split into exactly two parts, that is, one without a
  full stop or with more than one, maps to \<open>Q\<close> followed by the string itself.
\<close>

theorem generate_question_id_shape:
  "(46 \<notin> set a \<and> 46 \<notin> set b \<longrightarrow> generate_question_id (a @ 46 # b) = u ''Q'' @ a @ u ''x'' @ b) \<and>
   (count_list s 46 \<noteq> 1 \<longrightarrow> generate_question_id s = u ''Q'' @ s)"
  by (simp add: generate_question_id_def py_split_append py_split_no_sep length_py_split)

theorem generate_question_id_shape_witness:
  "generate_question_id (u ''1.4a'') = u ''Q1x4a'' \<and> generate_question_id (u ''7'') = u ''Q7''"
  using generate_question_id_shape [of "u ''1''" "u ''4a''" "u ''7''"]
  by (simp add: u_def)

section \<open>The table-option extractor\<close>

lemma extract_fold_aux:
  "foldl (\<lambda>acc t. (let options = table_options_of U t in if options \<noteq> [] then acc @ [options] else acc)) acc ts
   = acc @ filter (\<lambda>os. os \<noteq> []) (map (table_options_of U) ts)"
  by (induction ts arbitrary: acc) (auto simp: Let_def)

lemma extract_table_options_filter:
  "extract_table_options U tables = filter (\<lambda>os. os \<noteq> []) (map (table_options_of U) tables)"
  unfolding extract_table_options_def using extract_fold_aux [of U "[]" tables] by simp

lemma extract_table_options_nonempty: "\<forall>os \<in> set (extract_table_options U tables). os \<noteq> []"
  by (simp add: extract_table_options_filter)

lemma row_options_four:
  "length row \<ge> 4 \<Longrightarrow>
      row_options U os row =
        os @ (if py_strip U (cell_text (row ! 0)) \<noteq> [] \<and> py_strip U (cell_text (row ! 1)) \<noteq> []
              then [\<lparr>option_code = py_strip U (cell_text (row ! 1)),
                     option_text = py_strip U (cell_text (row ! 0))\<rparr>] else [])
           @ (if py_strip U (cell_text (row ! 2)) \<noteq> [] \<and> py_strip U (cell_text (row ! 3)) \<noteq> []
              then [\<lparr>option_code = py_strip U (cell_text (row ! 3)),
                     option_text = py_strip U (cell_text (row ! 2))\<rparr>] else [])"
  by (simp add: row_options_def mk_option_def Let_def)

lemma row_options_two:
  "length row = 2 \<or> length row = 3 \<Longrightarrow>
      row_options U os row =
        os @ (if py_strip U (cell_text (row ! 0)) \<noteq> [] \<and> py_strip U (cell_text (row ! 1)) \<noteq> []
              then [\<lparr>option_code = py_strip U (cell_text (row ! 1)),
                     option_text = py_strip U (cell_text (row ! 0))\<rparr>] else [])"
  by (auto simp: row_options_def mk_option_def Let_def)

lemma row_options_one:
  "length row = 1 \<Longrightarrow>
      row_options U os row =
        os @ (if py_strip U (cell_text (row ! 0)) \<noteq> [] \<and> \<not> py_isdigit U (py_strip U (cell_text (row ! 0)))
              then [\<lparr>option_code = py_str (1 + int (length os)),
                     option_text = py_strip U (cell_text (row ! 0))\<rparr>] else [])"
  by (simp add: row_options_def mk_option_def Let_def add.commute)

lemma row_options_none: "row = [] \<Longrightarrow> row_options U os row = os"
  by (simp add: row_options_def)

text \<open>
  C2.  The extractor keeps, in order, the option lists of the tables that yield at least
  one option.  The options of a table are collected row by row, and a row adds to the
  options \<open>os\<close> collected so far: with four or more cells, the pair of cells 0 and 1 and
  the pair of cells 2 and 3, each only if its text and its code are both non-empty after
  trimming; with two or three cells, the pair of cells 0 and 1 under the same condition;
  with one cell, its trimmed text if that is non-empty and not purely numeric, under the
  code \<open>str (1 + length os)\<close>; with no cell, nothing.
\<close>

theorem extract_table_options_rules:
  "extract_table_options U tables = filter (\<lambda>os. os \<noteq> []) (map (table_options_of U) tables) \<and>
   table_options_of U t = foldl (row_options U) [] (t_data t) \<and>
   (length row \<ge> 4 \<longrightarrow>
      row_options U os row =
        os @ (if py_strip U (cell_text (row ! 0)) \<noteq> [] \<and> py_strip U (cell_text (row ! 1)) \<noteq> []
              then [\<lparr>option_code = py_strip U (cell_text (row ! 1)),
                     option_text = py_strip U (cell_text (row ! 0))\<rparr>] else [])
           @ (if py_strip U (cell_text (row ! 2)) \<noteq> [] \<and> py_strip U (cell_text (row ! 3)) \<noteq> []
              then [\<lparr>option_code = py_strip U (cell_text (row ! 3)),
                     option_text = py_strip U (cell_text (row ! 2))\<rparr>] else [])) \<and>
   (length row = 2 \<or> length row = 3 \<longrightarrow>
      row_options U os row =
        os @ (if py_strip U (cell_text (row ! 0)) \<noteq> [] \<and> py_strip U (cell_text (row ! 1)) \<noteq> []
              then [\<lparr>option_code = py_strip U (cell_text (row ! 1)),
                     option_text = py_strip U (cell_text (row ! 0))\<rparr>] else [])) \<and>
   (length row = 1 \<longrightarrow>
      row_options U os row =
        os @ (if py_strip U (cell_text (row ! 0)) \<noteq> [] \<and> \<not> py_isdigit U (py_strip U (cell_text (row ! 0)))
              then [\<lparr>option_code = py_str (1 + int (length os)),
                     option_text = py_strip U (cell_text (row ! 0))\<rparr>] else [])) \<and>
   (row = [] \<longrightarrow> row_options U os row = os)"
  using extract_table_options_filter [of U tables] row_options_four [of row U os]
    row_options_two [of row U os] row_options_one [of row U os] row_options_none [of row U os]
  by (simp add: table_options_of_def)

theorem extract_table_options_rules_witness:
  "length [mk_cell 0 0 ''Yes''] = 1 \<and>
   row_options ascii_tables [] [mk_cell 0 0 ''Yes''] = [mk_option (u ''1'') (u ''Yes'')] \<and>
   extract_table_options ascii_tables
     [\<lparr> t_index = 0, t_rows = 1, t_columns = 4,
        t_data = [[mk_cell 0 0 ''A'', mk_cell 0 1 ''1'', mk_cell 0 2 ''B'', mk_cell 0 3 ''2'']] \<rparr>,
      \<lparr> t_index = 1, t_rows = 1, t_columns = 2, t_data = [[mk_cell 0 0 ''Only text'', mk_cell 0 1 [] ]] \<rparr>,
      \<lparr> t_index = 2, t_rows = 2, t_columns = 1, t_data = [[mk_cell 0 0 ''Yes''], [mk_cell 1 0 ''42'']] \<rparr>]
   = [[mk_option (u ''1'') (u ''A''), mk_option (u ''2'') (u ''B'')], [mk_option (u ''1'') (u ''Yes'')]]"
  using extract_table_options_rules [of ascii_tables _ _ "[mk_cell 0 0 ''Yes'']" "[]"]
  by (simp add: str_defs mk_cell_def mk_option_def table_options_of_def row_options_def)

section \<open>The option assignment heuristic\<close>

text \<open>
  C10.  A question whose text is empty is returned as it is, for every index and every
  sequence of option lists; the function has no other effect.
\<close>

theorem assign_empty_text_unchanged:
  "question_text q = [] \<Longrightarrow> assign_table_options U q tabs = Inr q"
  by (simp add: assign_table_options_def)

theorem assign_empty_text_unchanged_witness:
  "question_text (new_question 4 (u ''ASK ALL'')) = [] \<and>
   assign_table_options ascii_tables (new_question 4 (u ''ASK ALL''))
     [[mk_option (u ''1'') (u ''Male'')]] = Inr (new_question 4 (u ''ASK ALL''))"
  using assign_empty_text_unchanged [of "new_question 4 (u ''ASK ALL'')" ascii_tables
      "[[mk_option (u ''1'') (u ''Male'')]]"]
  by (simp add: new_question_def)

section \<open>The XML generator: questions of unknown type\<close>

lemma emit_question_unknown:
  "unknown_type q \<Longrightarrow> emit_question q (root, cnt) = (root, cnt\<lparr>unknown := unknown cnt + 1\<rparr>)"
  by (simp add: emit_question_def unknown_type_def)

lemma emit_question_fst:
  "fst st = fst st' \<Longrightarrow> fst (emit_question q st) = fst (emit_question q st')"
  by (simp add: emit_question_def Let_def)

lemma fold_emit_fst:
  "fst st = fst st' \<Longrightarrow>
   fst (fold emit_question qs st) = fst (fold emit_question (filter (\<lambda>q. \<not> unknown_type q) qs) st')"
proof (induction qs arbitrary: st st')
  case Nil
  then show ?case by simp
next
  case (Cons q qs)
  show ?case
  proof (cases "unknown_type q")
    case True
    have "fst (emit_question q st) = fst st"
      using True emit_question_unknown [of q "fst st" "snd st"] by simp
    then have "fst (emit_question q st) = fst st'"
      using Cons.prems by simp
    then show ?thesis using True Cons.IH [of "emit_question q st" st'] by simp
  next
    case False
    have "fst (emit_question q st) = fst (emit_question q st')"
      using Cons.prems by (rule emit_question_fst)
    then show ?thesis using False Cons.IH [of "emit_question q st" "emit_question q st'"] by simp
  qed
qed

lemma emit_question_unknown_count:
  "unknown (snd (emit_question q st)) = unknown (snd st) + (if unknown_type q then 1 else 0)"
  by (simp add: emit_question_def unknown_type_def Let_def)

lemma fold_emit_unknown:
  "unknown (snd (fold emit_question qs st)) = unknown (snd st) + length (filter unknown_type qs)"
  by (induction qs arbitrary: st) (simp_all add: emit_question_unknown_count)

lemma emit_question_known_counts:
  "unknown_type q \<Longrightarrow>
   single_answer (snd (emit_question q st)) = single_answer (snd st) \<and>
   multiple_answers (snd (emit_question q st)) = multiple_answers (snd st) \<and>
   numeric (snd (emit_question q st)) = numeric (snd st)"
  by (simp add: emit_question_def unknown_type_def Let_def)

text \<open>
  C8.  A question whose type is none of the three known strings (empty, or any other
  string) adds no element to the root and adds one to the counter \<open>unknown\<close>, leaving the
  rest of the state as it is.  The loop goes on with the remaining questions: the document
  of a list of questions is the document of its questions of known type, and the counter
  \<open>unknown\<close> ends as the number of questions of unknown type.  The loop is a total function
  of the questions: no branch of it raises.
\<close>

theorem emit_unknown_skipped:
  "(unknown_type q \<longrightarrow> emit_question q (root, cnt) = (root, cnt\<lparr>unknown := unknown cnt + 1\<rparr>)) \<and>
   fst (emit_questions root qs) = fst (emit_questions root (filter (\<lambda>q. \<not> unknown_type q) qs)) \<and>
   unknown (snd (emit_questions root qs)) = length (filter unknown_type qs)"
proof -
  have "length (filter unknown_type (sort_key index qs)) = length (filter unknown_type qs)"
    by (simp add: filter_sort)
  then show ?thesis
    using emit_question_unknown [of q root cnt]
      fold_emit_fst [of "(root, count0)" "(root, count0)" "sort_key index qs"]
      fold_emit_unknown [of "sort_key index qs" "(root, count0)"]
    by (simp add: emit_questions_def filter_sort count0_def)
qed

theorem emit_unknown_skipped_witness:
  "unknown_type \<lparr>index = 1, answer_logic = u ''ASK ALL'', question_id = u ''Q1x1'',
       question_text = u ''Why?'', question_type = u ''Open Answer'', question_options = []\<rparr> \<and>
   emit_question \<lparr>index = 1, answer_logic = u ''ASK ALL'', question_id = u ''Q1x1'',
       question_text = u ''Why?'', question_type = u ''Open Answer'', question_options = []\<rparr>
     (survey_root, count0) = (survey_root, count0\<lparr>unknown := 1\<rparr>)"
  using emit_unknown_skipped [of "\<lparr>index = 1, answer_logic = u ''ASK ALL'', question_id = u ''Q1x1'',
       question_text = u ''Why?'', question_type = u ''Open Answer'', question_options = []\<rparr>"
       survey_root count0 "[]"]
  by (simp add: unknown_type_def u_def count0_def)

end
